theory Spec2Isabelle
  imports Complex_Main
begin

section \<open>JavaScript values as the two pages see them\<close>

text \<open>
  Both pages work on values that came out of \<open>JSON.parse\<close> (the stored payload, the
  body of the API response). A number is an IEEE double: a finite double is the rational
  it denotes, and the three special values are kept apart. Strings are lists of code
  units; the model covers the code units below 256.
\<close>

datatype jsnum = Fin rat | PosInf | NegInf | NaN

datatype json =
    JNull
  | JBool bool
  | JNum jsnum
  | JStr string
  | JArr "json list"
  | JObj "(string \<times> json) list"

text \<open>
  A value of JavaScript that may be \<open>undefined\<close> is a \<open>json option\<close>, with \<open>None\<close>
  for \<open>undefined\<close>.
\<close>

type_synonym jsval = "json option"

text \<open>The exceptions of \<open>localStorage\<close>.\<close>

datatype js_error = SecurityError | QuotaExceededError

text \<open>\<open>x >= c\<close> for a number \<open>x\<close> and a finite constant \<open>c\<close>; every comparison with NaN is false.\<close>

fun num_ge :: "jsnum \<Rightarrow> rat \<Rightarrow> bool" where
  "num_ge (Fin x) c = (c \<le> x)"
| "num_ge PosInf c = True"
| "num_ge NegInf c = False"
| "num_ge NaN c = False"

text \<open>ToBoolean: \<open>null\<close>, \<open>false\<close>, \<open>0\<close>, \<open>NaN\<close> and the empty string are falsy.\<close>

fun truthy :: "json \<Rightarrow> bool" where
  "truthy JNull = False"
| "truthy (JBool b) = b"
| "truthy (JNum (Fin x)) = (x \<noteq> 0)"
| "truthy (JNum NaN) = False"
| "truthy (JNum n) = True"
| "truthy (JStr s) = (s \<noteq> [])"
| "truthy (JArr xs) = True"
| "truthy (JObj kvs) = True"

fun truthy_val :: "jsval \<Rightarrow> bool" where
  "truthy_val None = False"
| "truthy_val (Some v) = truthy v"

text \<open>\<open>a || b\<close>: the left operand when it is truthy, the right one otherwise.\<close>

definition js_or :: "jsval \<Rightarrow> json \<Rightarrow> json" where
  "js_or a b = (case a of None \<Rightarrow> b | Some v \<Rightarrow> if truthy v then v else b)"

text \<open>
  \<open>o.name\<close> for a value that is neither \<open>null\<close> nor \<open>undefined\<close>, and for the
  property names the pages read (\<open>status\<close>, \<open>message\<close>, \<open>analytics\<close>, \<open>results\<close>,
  \<open>indicator\<close>, ...): an object answers with its own property, every other value has
  none of these names and answers \<open>undefined\<close>. Reading a property of \<open>null\<close> throws;
  the callers below write that branch out.
\<close>

fun get_prop :: "json \<Rightarrow> string \<Rightarrow> jsval" where
  "get_prop (JObj kvs) name = map_of kvs name"
| "get_prop v name = None"

text \<open>\<open>typeof v === 'object'\<close>: true of \<open>null\<close>, of arrays and of objects.\<close>

fun typeof_object :: "json \<Rightarrow> bool" where
  "typeof_object JNull = True"
| "typeof_object (JArr xs) = True"
| "typeof_object (JObj kvs) = True"
| "typeof_object v = False"

text \<open>
  The built-in operations of the host that the pages call and that are not code of the
  repository are taken as a parameter: \<open>JSON.parse\<close> (\<open>None\<close> when it throws
  SyntaxError), \<open>JSON.stringify\<close>, the conversion of a value to a string (template
  literals, \<open>new Error(x)\<close>, \<open>textContent\<close>), the conversion of a value that is not a
  number to a number, \<open>parseFloat\<close>, and the multiplication of two doubles.
\<close>

record platform =
  JSON_parse :: "string \<Rightarrow> json option"
  JSON_stringify :: "json \<Rightarrow> string"
  ToString :: "json \<Rightarrow> string"
  ToNumber :: "json \<Rightarrow> jsnum"
  parseFloat :: "json \<Rightarrow> jsnum"
  multiply :: "jsnum \<Rightarrow> jsnum \<Rightarrow> jsnum"

section \<open>localStorage\<close>

text \<open>
  The browser's store maps keys to strings. Access can be refused altogether (every
  call throws), and a write is refused with QuotaExceededError when the browser does not
  admit the contents the write would produce.
\<close>

record storage =
  entries :: "string \<rightharpoonup> string"
  available :: bool
  admits :: "(string \<rightharpoonup> string) \<Rightarrow> bool"

definition getItem :: "storage \<Rightarrow> string \<Rightarrow> js_error + string option" where
  "getItem st key = (if available st then Inr (entries st key) else Inl SecurityError)"

definition setItem :: "storage \<Rightarrow> string \<Rightarrow> string \<Rightarrow> js_error + storage" where
  "setItem st key v =
     (if \<not> available st then Inl SecurityError
      else if admits st ((entries st)(key \<mapsto> v)) then Inr (st\<lparr>entries := (entries st)(key \<mapsto> v)\<rparr>)
      else Inl QuotaExceededError)"

subsection \<open>CONFIG.STORAGE of app.js and of results.js\<close>

definition app_RESULTS_KEY :: string where "app_RESULTS_KEY = ''godeyeResults''"
definition app_QUERY_KEY :: string where "app_QUERY_KEY = ''lastQuery''"
definition app_TYPE_KEY :: string where "app_TYPE_KEY = ''lastQueryType''"
definition app_TIMESTAMP_KEY :: string where "app_TIMESTAMP_KEY = ''lastSearchTimestamp''"

definition results_RESULTS_KEY :: string where "results_RESULTS_KEY = ''godeyeResults''"
definition results_QUERY_KEY :: string where "results_QUERY_KEY = ''lastQuery''"
definition results_TYPE_KEY :: string where "results_TYPE_KEY = ''lastQueryType''"
definition results_TIMESTAMP_KEY :: string where "results_TIMESTAMP_KEY = ''lastSearchTimestamp''"

subsection \<open>StorageManager of app.js\<close>

text \<open>
  \<open>set\<close> serialises and writes inside a try block: it returns \<open>true\<close> with the updated
  store, or \<open>false\<close> with the store as it was when \<open>setItem\<close> threw.
\<close>

definition app_StorageManager_set :: "platform \<Rightarrow> storage \<Rightarrow> string \<Rightarrow> json \<Rightarrow> bool \<times> storage" where
  "app_StorageManager_set P st key v =
     (let serialized = JSON_stringify P v
      in case setItem st key serialized of
           Inr st' \<Rightarrow> (True, st')
         | Inl e \<Rightarrow> (False, st))"

subsection \<open>StorageManager of results.js\<close>

text \<open>
  \<open>get\<close>: \<open>item ? JSON.parse(item) : defaultValue\<close> inside a try block whose handler
  returns \<open>defaultValue\<close>. An absent key gives \<open>null\<close> from \<open>getItem\<close>, which is falsy,
  as the empty string is.
\<close>

definition results_StorageManager_get :: "platform \<Rightarrow> storage \<Rightarrow> string \<Rightarrow> json \<Rightarrow> json" where
  "results_StorageManager_get P st key defaultValue =
     (case getItem st key of
        Inl e \<Rightarrow> defaultValue
      | Inr None \<Rightarrow> defaultValue
      | Inr (Some item) \<Rightarrow>
          if item = [] then defaultValue
          else (case JSON_parse P item of
                  None \<Rightarrow> defaultValue
                | Some v \<Rightarrow> v))"

text \<open>\<open>hasResults\<close> has no handler of its own: a throwing \<open>getItem\<close> propagates.\<close>

definition hasResults :: "storage \<Rightarrow> js_error + bool" where
  "hasResults st =
     (case getItem st results_RESULTS_KEY of
        Inl e \<Rightarrow> Inl e
      | Inr None \<Rightarrow> Inr False
      | Inr (Some item) \<Rightarrow> Inr (item \<noteq> []))"

section \<open>The results page: DataManager and initialize\<close>

text \<open>\<open>loadResults\<close>: the stored value, or \<open>null\<close> when it is falsy.\<close>

definition loadResults :: "platform \<Rightarrow> storage \<Rightarrow> json" where
  "loadResults P st =
     (let results = results_StorageManager_get P st results_RESULTS_KEY JNull
      in if \<not> truthy results then JNull else results)"

text \<open>
  \<open>validateResults\<close> returns \<open>{valid: true}\<close> (here \<open>Inr ()\<close>) or \<open>{valid: false, error}\<close>
  (here \<open>Inl error\<close>); the error is a literal of the code or the payload's own
  \<open>message\<close>, whatever value that is.
\<close>

definition validateResults :: "jsval \<Rightarrow> json + unit" where
  "validateResults results =
     (case results of
        None \<Rightarrow> Inl (JStr ''Invalid results format'')
      | Some r \<Rightarrow>
          if \<not> truthy r \<or> \<not> typeof_object r then Inl (JStr ''Invalid results format'')
          else if get_prop r ''status'' \<noteq> Some (JStr ''success'')
            then Inl (js_or (get_prop r ''message'') (JStr ''Analysis failed''))
          else if \<not> truthy_val (get_prop r ''analytics'') \<or> \<not> truthy_val (get_prop r ''results'')
            then Inl (JStr ''Incomplete results data'')
          else Inr ())"

text \<open>
  What a load of the results page ends in: the full-page error state with its message,
  or the scheduled call of \<open>Renderer.renderAll\<close> and \<open>ButtonHandlers.initialize\<close> on the
  loaded payload.
\<close>

datatype page_outcome = ErrorState json | Render json

definition initialize :: "platform \<Rightarrow> storage \<Rightarrow> page_outcome" where
  "initialize P st =
     (case hasResults st of
        Inl e \<Rightarrow> ErrorState (JStr ''An error occurred while loading results.'')
      | Inr False \<Rightarrow> ErrorState (JStr ''No analysis data found. Please run a new search.'')
      | Inr True \<Rightarrow>
          (let results = loadResults P st
           in if \<not> truthy results
              then ErrorState (JStr ''Failed to load results. Please try again.'')
              else (case validateResults (Some results) of
                      Inl error \<Rightarrow> ErrorState error
                    | Inr u \<Rightarrow> Render results)))"

section \<open>Risk level and confidence tier (results.js)\<close>

text \<open>
  The operand of \<open>>=\<close> and of \<open>*\<close> as a number: a number is itself, any other value
  goes through the host's conversion.
\<close>

definition to_num :: "platform \<Rightarrow> json \<Rightarrow> jsnum" where
  "to_num P v = (case v of JNum n \<Rightarrow> n | _ \<Rightarrow> ToNumber P v)"

text \<open>
  The risk-level branch of \<open>Renderer.renderAnalytics\<close>, for an \<open>analytics\<close> value that
  passed the \<open>!analytics\<close> guard: the pair of \<open>riskLevel\<close> and \<open>riskClass\<close>. The
  constant \<open>0.8\<close> of the source is the least double that is at least \<open>8/10\<close>, so a
  double is at least the one exactly when it is at least the other; \<open>0.5\<close> is exact.
\<close>

definition riskLevel :: "platform \<Rightarrow> json \<Rightarrow> string \<times> string" where
  "riskLevel P analytics =
     (let confidence = to_num P (js_or (get_prop analytics ''avg_confidence'') (JNum (Fin 0)))
      in if num_ge confidence (8 / 10) then (''High'', ''risk-high'')
         else if num_ge confidence (5 / 10) then (''Medium'', ''risk-medium'')
         else (''Low'', ''risk-low''))"

text \<open>\<open>n || 0\<close> for a number \<open>n\<close>.\<close>

definition num_or_zero :: "jsnum \<Rightarrow> jsnum" where
  "num_or_zero n = (if n = NaN \<or> n = Fin 0 then Fin 0 else n)"

text \<open>
  \<open>UIUtils.getConfidenceClass\<close>: a number is taken as it is, anything else goes through
  \<open>parseFloat(confidence) || 0\<close> (\<open>parseFloat(undefined)\<close> is NaN).
\<close>

definition getConfidenceClass :: "platform \<Rightarrow> jsval \<Rightarrow> string" where
  "getConfidenceClass P confidence =
     (let v = (case confidence of
                 Some (JNum n) \<Rightarrow> n
               | Some x \<Rightarrow> num_or_zero (parseFloat P x)
               | None \<Rightarrow> Fin 0)
      in if num_ge v (8 / 10) then ''high''
         else if num_ge v (5 / 10) then ''medium''
         else ''low'')"

section \<open>Regular expressions (CONFIG.PATTERNS of app.js)\<close>

text \<open>
  The four patterns use literals, character classes, sequence, alternation, bounded and
  unbounded repetition and one word-boundary assertion; each is anchored at both ends
  and is used through \<open>test\<close> only, so a pattern is decided by the set of positions a
  match can reach. A position is the code unit before it (for \<open>\b\<close>) and the rest of
  the input.
\<close>

datatype cclass = Chr char | Between char char | Space

datatype rx =
    Lit char
  | OneOf "cclass list"
  | NoneOf "cclass list"
  | Then rx rx
  | Or rx rx
  | Repeat nat "nat option" rx
  | WordBoundary

type_synonym pos = "char option \<times> string"

text \<open>
  White space as \<open>\s\<close> and \<open>trim\<close> read it, among the code units below 256: TAB, LF,
  VT, FF, CR, SP and NBSP.
\<close>

definition is_space :: "char \<Rightarrow> bool" where
  "is_space c = ((of_char c :: nat) \<in> set [9, 10, 11, 12, 13, 32, 160])"

definition in_range :: "char \<Rightarrow> char \<Rightarrow> char \<Rightarrow> bool" where
  "in_range a b c = ((of_char a :: nat) \<le> of_char c \<and> (of_char c :: nat) \<le> of_char b)"

fun in_item :: "cclass \<Rightarrow> char \<Rightarrow> bool" where
  "in_item (Chr a) c = (c = a)"
| "in_item (Between a b) c = in_range a b c"
| "in_item Space c = is_space c"

text \<open>
  The other case of an ASCII letter. With the \<open>i\<close> flag a code unit matches a class
  when it or its other case is in the class; the classes of the patterns are ASCII.
\<close>

definition swap_case :: "char \<Rightarrow> char" where
  "swap_case c =
     (if in_range CHR ''a'' CHR ''z'' c then char_of ((of_char c :: nat) - 32)
      else if in_range CHR ''A'' CHR ''Z'' c then char_of ((of_char c :: nat) + 32)
      else c)"

definition in_class :: "bool \<Rightarrow> cclass list \<Rightarrow> char \<Rightarrow> bool" where
  "in_class ic items c =
     (list_ex (\<lambda>i. in_item i c) items \<or> (ic \<and> list_ex (\<lambda>i. in_item i (swap_case c)) items))"

text \<open>A word character of \<open>\b\<close>: \<open>[A-Za-z0-9_]\<close>; the ends of the input count as non-word.\<close>

definition is_word :: "char option \<Rightarrow> bool" where
  "is_word p =
     (case p of
        None \<Rightarrow> False
      | Some c \<Rightarrow> in_class False [Between CHR ''a'' CHR ''z'', Between CHR ''A'' CHR ''Z'',
                                  Between CHR ''0'' CHR ''9'', Chr CHR ''_''] c)"

definition next_char :: "string \<Rightarrow> char option" where
  "next_char s = (case s of [] \<Rightarrow> None | c # t \<Rightarrow> Some c)"

text \<open>One code unit that satisfies \<open>ok\<close>.\<close>

definition step :: "(char \<Rightarrow> bool) \<Rightarrow> pos \<Rightarrow> pos list" where
  "step ok st = (case snd st of [] \<Rightarrow> [] | c # t \<Rightarrow> if ok c then [(Some c, t)] else [])"

text \<open>
  Repetitions of \<open>f\<close>, at least \<open>lo\<close> and at most \<open>n\<close> of them (\<open>lo\<close> is at most \<open>n\<close> where
  \<open>iter\<close> is called): a repetition may stop once \<open>lo\<close> has reached zero, and goes on
  while \<open>n\<close> allows.
\<close>

fun iter :: "(pos \<Rightarrow> pos list) \<Rightarrow> nat \<Rightarrow> nat \<Rightarrow> pos \<Rightarrow> pos list" where
  "iter f lo 0 st = (if lo = 0 then [st] else [])"
| "iter f lo (Suc n) st =
     (if lo = 0 then [st] else []) @ concat (map (iter f (lo - 1) n) (f st))"

text \<open>
  The positions a match of \<open>r\<close> from a position can end in. An unbounded repetition
  needs no more rounds than the input has code units left (or its lower bound, when
  that is larger): a round that consumes nothing reaches no new position.
\<close>

primrec run :: "bool \<Rightarrow> rx \<Rightarrow> pos \<Rightarrow> pos list" where
  "run ic (Lit a) st = step (\<lambda>c. in_class ic [Chr a] c) st"
| "run ic (OneOf items) st = step (\<lambda>c. in_class ic items c) st"
| "run ic (NoneOf items) st = step (\<lambda>c. \<not> in_class ic items c) st"
| "run ic (Then a b) st = concat (map (run ic b) (run ic a st))"
| "run ic (Or a b) st = run ic a st @ run ic b st"
| "run ic (Repeat lo hi r) st =
     iter (run ic r) lo (case hi of Some h \<Rightarrow> h | None \<Rightarrow> max lo (length (snd st))) st"
| "run ic WordBoundary st =
     (if is_word (fst st) \<noteq> is_word (next_char (snd st)) then [st] else [])"

text \<open>\<open>/^r$/.test(s)\<close>, with \<open>ic\<close> for the \<open>i\<close> flag.\<close>

definition test :: "bool \<Rightarrow> rx \<Rightarrow> string \<Rightarrow> bool" where
  "test ic r s = list_ex (\<lambda>st. snd st = []) (run ic r (None, s))"

subsection \<open>The patterns\<close>

definition digit :: rx where "digit = OneOf [Between CHR ''0'' CHR ''9'']"
definition dot :: rx where "dot = Lit CHR ''.''"
definition optional :: "rx \<Rightarrow> rx" where "optional r = Repeat 0 (Some 1) r"
definition one_or_more :: "rx \<Rightarrow> rx" where "one_or_more r = Repeat 1 None r"
definition zero_or_more :: "rx \<Rightarrow> rx" where "zero_or_more r = Repeat 0 None r"

text \<open>\<open>(?:25[0-5]|2[0-4][0-9]|[01]?[0-9][0-9]?)\<close>\<close>

definition ip_octet :: rx where
  "ip_octet =
     Or (Then (Lit CHR ''2'') (Then (Lit CHR ''5'') (OneOf [Between CHR ''0'' CHR ''5''])))
    (Or (Then (Lit CHR ''2'') (Then (OneOf [Between CHR ''0'' CHR ''4'']) digit))
        (Then (optional (OneOf [Chr CHR ''0'', Chr CHR ''1''])) (Then digit (optional digit))))"

text \<open>\<open>/^(?:(?:25[0-5]|2[0-4][0-9]|[01]?[0-9][0-9]?)\.){3}(?:25[0-5]|2[0-4][0-9]|[01]?[0-9][0-9]?)$/\<close>\<close>

definition PATTERN_IP :: rx where
  "PATTERN_IP = Then (Repeat 3 (Some 3) (Then ip_octet dot)) ip_octet"

text \<open>\<open>/^[^\s@]+@[^\s@]+\.[^\s@]+$/\<close>\<close>

definition PATTERN_EMAIL :: rx where
  "PATTERN_EMAIL =
     Then (one_or_more (NoneOf [Space, Chr CHR ''@'']))
    (Then (Lit CHR ''@'')
    (Then (one_or_more (NoneOf [Space, Chr CHR ''@'']))
    (Then dot
          (one_or_more (NoneOf [Space, Chr CHR ''@''])))))"

text \<open>
  \<open>/^(?:[a-z0-9](?:[a-z0-9-]{0,61}[a-z0-9])?\.)+[a-z0-9][a-z0-9-]{0,61}[a-z0-9]$/i\<close>
\<close>

definition alnum :: rx where
  "alnum = OneOf [Between CHR ''a'' CHR ''z'', Between CHR ''0'' CHR ''9'']"

definition alnum_hyphen :: rx where
  "alnum_hyphen = OneOf [Between CHR ''a'' CHR ''z'', Between CHR ''0'' CHR ''9'', Chr CHR ''-'']"

definition PATTERN_DOMAIN :: rx where
  "PATTERN_DOMAIN =
     Then (one_or_more (Then alnum (Then (optional (Then (Repeat 0 (Some 61) alnum_hyphen) alnum)) dot)))
    (Then alnum
    (Then (Repeat 0 (Some 61) alnum_hyphen)
          alnum))"

text \<open>
  \<open>/^https?:\/\/(www\.)?[-a-zA-Z0-9@:%._\+~#=]{1,256}\.[a-zA-Z0-9()]{1,6}\b([-a-zA-Z0-9()@:%_\+.~#?&//=]*)$/\<close>
\<close>

fun lits :: "string \<Rightarrow> rx \<Rightarrow> rx" where
  "lits [] r = r"
| "lits (c # cs) r = Then (Lit c) (lits cs r)"

definition url_host_class :: "cclass list" where
  "url_host_class =
     [Chr CHR ''-'', Between CHR ''a'' CHR ''z'', Between CHR ''A'' CHR ''Z'', Between CHR ''0'' CHR ''9'',
      Chr CHR ''@'', Chr CHR '':'', Chr CHR ''%'', Chr CHR ''.'', Chr CHR ''_'', Chr CHR ''+'',
      Chr CHR ''~'', Chr CHR ''#'', Chr CHR ''='']"

definition url_tld_class :: "cclass list" where
  "url_tld_class =
     [Between CHR ''a'' CHR ''z'', Between CHR ''A'' CHR ''Z'', Between CHR ''0'' CHR ''9'',
      Chr CHR ''('', Chr CHR '')'']"

definition url_path_class :: "cclass list" where
  "url_path_class =
     [Chr CHR ''-'', Between CHR ''a'' CHR ''z'', Between CHR ''A'' CHR ''Z'', Between CHR ''0'' CHR ''9'',
      Chr CHR ''('', Chr CHR '')'', Chr CHR ''@'', Chr CHR '':'', Chr CHR ''%'', Chr CHR ''_'',
      Chr CHR ''+'', Chr CHR ''.'', Chr CHR ''~'', Chr CHR ''#'', Chr CHR ''?'', Chr CHR ''&'',
      Chr CHR ''/'', Chr CHR ''/'', Chr CHR ''='']"

definition PATTERN_URL :: rx where
  "PATTERN_URL =
     lits ''http''
    (Then (optional (Lit CHR ''s''))
    (lits ''://''
    (Then (optional (lits ''www'' dot))
    (Then (Repeat 1 (Some 256) (OneOf url_host_class))
    (Then dot
    (Then (Repeat 1 (Some 6) (OneOf url_tld_class))
    (Then WordBoundary
          (zero_or_more (OneOf url_path_class)))))))))"

section \<open>Validator (app.js)\<close>

text \<open>\<open>String.prototype.trim\<close>: white space off both ends.\<close>

definition trim :: "string \<Rightarrow> string" where
  "trim s = rev (dropWhile is_space (rev (dropWhile is_space s)))"

text \<open>
  \<open>toUpperCase\<close> on the ASCII letters; the property names it is compared with are
  ASCII.
\<close>

definition toUpperCase :: "string \<Rightarrow> string" where
  "toUpperCase s = map (\<lambda>c. if in_range CHR ''a'' CHR ''z'' c then swap_case c else c) s"

text \<open>\<open>CONFIG.PATTERNS[name]\<close>: the pattern with its \<open>i\<close> flag, or \<open>undefined\<close>.\<close>

definition PATTERNS :: "string \<Rightarrow> (bool \<times> rx) option" where
  "PATTERNS name =
     (if name = ''DOMAIN'' then Some (True, PATTERN_DOMAIN)
      else if name = ''IP'' then Some (False, PATTERN_IP)
      else if name = ''EMAIL'' then Some (False, PATTERN_EMAIL)
      else if name = ''URL'' then Some (False, PATTERN_URL)
      else None)"

text \<open>
  \<open>validateQuery\<close> returns \<open>{valid: true, query}\<close> (here \<open>Inr query\<close>) or
  \<open>{valid: false, error}\<close> (here \<open>Inl error\<close>).
\<close>

definition validateQuery :: "jsval \<Rightarrow> string \<Rightarrow> string + string" where
  "validateQuery query type =
     (case query of
        Some (JStr q) \<Rightarrow>
          if q = [] then Inl ''Query must be a non-empty string''
          else
            (let trimmedQuery = trim q
             in if length trimmedQuery = 0 then Inl ''Query cannot be empty''
                else if length trimmedQuery > 500 then Inl ''Query is too long (max 500 characters)''
                else if type = ''auto'' then Inr trimmedQuery
                else (case PATTERNS (toUpperCase type) of
                        Some (ic, pattern) \<Rightarrow>
                          if \<not> test ic pattern trimmedQuery
                          then Inl (''Invalid '' @ type @ '' format'')
                          else Inr trimmedQuery
                      | None \<Rightarrow> Inr trimmedQuery))
      | _ \<Rightarrow> Inl ''Query must be a non-empty string'')"

definition detectQueryType :: "string \<Rightarrow> string" where
  "detectQueryType query =
     (if test False PATTERN_IP query then ''ip''
      else if test False PATTERN_EMAIL query then ''email''
      else if test True PATTERN_DOMAIN query then ''domain''
      else if test False PATTERN_URL query then ''url''
      else ''unknown'')"

section \<open>SearchHandler.handleSubmit (app.js)\<close>

text \<open>A value as a string: a string is itself, any other value goes through the host.\<close>

definition to_string :: "platform \<Rightarrow> json \<Rightarrow> string" where
  "to_string P v = (case v of JStr s \<Rightarrow> s | _ \<Rightarrow> ToString P v)"

text \<open>
  What a submit ends in: the notification for a missing input element, the
  notification of a failed validation, the notification of the catch block, or the
  success notification with the redirect to the results page.
\<close>

datatype submit_outcome =
    NoSearchInput
  | ValidationFailed string
  | SearchFailed string
  | Redirect

text \<open>\<open>error.message || 'Analysis failed. Please try again.'\<close> of the catch block.\<close>

definition errorMessage :: "string \<Rightarrow> string" where
  "errorMessage message = (if message = [] then ''Analysis failed. Please try again.'' else message)"

text \<open>
  \<open>handleSubmit\<close> on a store. The value of the input element and of the type selector
  are \<open>None\<close> when the element does not exist; \<open>now\<close> is \<open>new Date().toISOString()\<close>;
  \<open>search\<close> is the outcome of \<open>APIClient.search\<close>, either the message of the error it
  throws or the parsed body. The three writes of the search parameters ignore what
  \<open>set\<close> returns.
\<close>

definition handleSubmit ::
  "platform \<Rightarrow> (string \<Rightarrow> string \<Rightarrow> string + json) \<Rightarrow> string \<Rightarrow> storage
     \<Rightarrow> string option \<Rightarrow> string option \<Rightarrow> storage \<times> submit_outcome" where
  "handleSubmit P search now st searchInput typeSelector =
     (case searchInput of
        None \<Rightarrow> (st, NoSearchInput)
      | Some text \<Rightarrow>
          (let query = trim text;
               type = (case typeSelector of Some t \<Rightarrow> t | None \<Rightarrow> ''auto'')
           in case validateQuery (Some (JStr query)) type of
                Inl error \<Rightarrow> (st, ValidationFailed error)
              | Inr q \<Rightarrow>
                  (let st1 = snd (app_StorageManager_set P st app_QUERY_KEY (JStr q));
                       st2 = snd (app_StorageManager_set P st1 app_TYPE_KEY (JStr type));
                       st3 = snd (app_StorageManager_set P st2 app_TIMESTAMP_KEY (JStr now))
                   in case search q type of
                        Inl message \<Rightarrow> (st3, SearchFailed (errorMessage message))
                      | Inr results \<Rightarrow>
                          if \<not> truthy results \<or> \<not> typeof_object results
                          then (st3, SearchFailed (errorMessage ''Invalid response format from server''))
                          else if get_prop results ''status'' \<noteq> Some (JStr ''success'')
                          then (st3, SearchFailed (errorMessage
                                  (to_string P (js_or (get_prop results ''message'') (JStr ''Analysis failed'')))))
                          else (case app_StorageManager_set P st3 app_RESULTS_KEY results of
                                  (stored, st4) \<Rightarrow>
                                    if \<not> stored
                                    then (st4, SearchFailed (errorMessage
                                            ''Failed to store results. Check browser storage.''))
                                    else (st4, Redirect)))))"

text \<open>Whether the store takes a write of \<open>text\<close> under \<open>key\<close>.\<close>

definition accepts :: "storage \<Rightarrow> string \<Rightarrow> string \<Rightarrow> bool" where
  "accepts st key text = (available st \<and> admits st ((entries st)(key \<mapsto> text)))"

section \<open>ExportManager.downloadCSV (results.js)\<close>

text \<open>\<open>Array.prototype.join\<close> on strings.\<close>

fun join :: "string \<Rightarrow> string list \<Rightarrow> string" where
  "join sep [] = []"
| "join sep [x] = x"
| "join sep (x # y # ys) = x @ sep @ join sep (y # ys)"

text \<open>\<open>Math.round\<close>: the nearest integer, a tie going up; NaN and the infinities stay.\<close>

fun math_round :: "jsnum \<Rightarrow> jsnum" where
  "math_round (Fin x) = Fin (of_int \<lfloor>x + 1 / 2\<rfloor>)"
| "math_round n = n"

text \<open>What the export does to the page: a file offered for download, a toast.\<close>

datatype effect = Download string string | Notify string string

definition CSV_FILENAME_PREFIX :: string where
  "CSV_FILENAME_PREFIX = ''godeye-indicators''"

definition csv_headers :: "json list" where
  "csv_headers = [JStr ''Indicator'', JStr ''Type'', JStr ''Confidence'', JStr ''Connections'', JStr ''Source'']"

text \<open>The cells of one indicator, before they are turned into text.\<close>

definition csv_row :: "platform \<Rightarrow> json \<Rightarrow> json list" where
  "csv_row P item =
     [js_or (get_prop item ''indicator'') (JStr ''unknown''),
      js_or (get_prop item ''type'') (JStr ''unknown''),
      JStr (to_string P (JNum (math_round
              (multiply P (to_num P (js_or (get_prop item ''confidence'') (JNum (Fin 0)))) (Fin 100))))
            @ ''%''),
      js_or (get_prop item ''connections'') (JNum (Fin 0)),
      js_or (get_prop item ''source'') (JStr ''unknown'')]"

definition csv_cell :: "platform \<Rightarrow> json \<Rightarrow> string" where
  "csv_cell P cell = [CHR 0x22] @ to_string P cell @ [CHR 0x22]"

definition csv_line :: "platform \<Rightarrow> json list \<Rightarrow> string" where
  "csv_line P row = join '','' (map (csv_cell P) row)"

definition csv_text :: "platform \<Rightarrow> json list \<Rightarrow> string" where
  "csv_text P rs = join [CHR 0x0A] (map (csv_line P) (csv_headers # map (csv_row P) rs))"

text \<open>
  \<open>results.length === 0\<close>: an array and a string have their length, an object has
  the property only when the payload gave it one.
\<close>

definition length_is_zero :: "json \<Rightarrow> bool" where
  "length_is_zero v =
     (case v of
        JArr xs \<Rightarrow> xs = []
      | JStr s \<Rightarrow> s = []
      | JObj kvs \<Rightarrow> map_of kvs ''length'' = Some (JNum (Fin 0))
      | _ \<Rightarrow> False)"

text \<open>
  \<open>downloadCSV\<close>, with \<open>now\<close> for \<open>Date.now()\<close>. Only an array has \<open>map\<close>, and the
  callback reads properties of each element, which throws on \<open>null\<close>: both end in the
  catch block.
\<close>

definition downloadCSV :: "platform \<Rightarrow> int \<Rightarrow> jsval \<Rightarrow> effect list" where
  "downloadCSV P now results =
     (case results of
        None \<Rightarrow> [Notify ''No data to export'' ''warning'']
      | Some r \<Rightarrow>
          if \<not> truthy r \<or> length_is_zero r then [Notify ''No data to export'' ''warning'']
          else (case r of
                  JArr rs \<Rightarrow>
                    if list_ex (\<lambda>item. item = JNull) rs
                    then [Notify ''Failed to export table'' ''error'']
                    else [Download (CSV_FILENAME_PREFIX @ ''-'' @ to_string P (JNum (Fin (of_int now))) @ ''.csv'')
                                   (csv_text P rs),
                          Notify ''Table exported to CSV'' ''success'']
                | _ \<Rightarrow> [Notify ''Failed to export table'' ''error'']))"

section \<open>A host for the worked examples\<close>

text \<open>
  The examples below need one host to run on. This one serialises a value as
  \<open>JSON.stringify\<close> does when its strings need no escape and its numbers have a short
  exact decimal expansion, parses exactly the texts of a given list of values, writes
  such a number in decimal, and multiplies exactly, which is the double product
  whenever the exact product is a double. Its conversion of a value that is not a
  number to a number is right for \<open>null\<close> and the booleans only, and its \<open>parseFloat\<close>
  knows no number. The examples stay inside that fragment: none of them converts a
  string to a number.
\<close>

function decimal :: "int \<Rightarrow> string" where
  "decimal n = (if n < 10 then [char_of (48 + n)] else decimal (n div 10) @ [char_of (48 + n mod 10)])"
  by pat_completeness auto
termination
  by (relation "measure nat") auto

text \<open>The digits after the decimal point of \<open>x\<close> in \<open>[0, 1)\<close>, at most \<open>k\<close> of them.\<close>

fun fraction :: "nat \<Rightarrow> rat \<Rightarrow> string" where
  "fraction 0 x = []"
| "fraction (Suc k) x =
     (if x = 0 then []
      else char_of (48 + \<lfloor>x * 10\<rfloor>) # fraction k (x * 10 - of_int \<lfloor>x * 10\<rfloor>))"

definition unsigned_text :: "rat \<Rightarrow> string" where
  "unsigned_text x =
     (if x = of_int \<lfloor>x\<rfloor> then decimal \<lfloor>x\<rfloor>
      else decimal \<lfloor>x\<rfloor> @ ''.'' @ fraction 17 (x - of_int \<lfloor>x\<rfloor>))"

definition number_text :: "jsnum \<Rightarrow> string" where
  "number_text n =
     (case n of
        Fin x \<Rightarrow> if 0 \<le> x then unsigned_text x else CHR ''-'' # unsigned_text (- x)
      | PosInf \<Rightarrow> ''Infinity''
      | NegInf \<Rightarrow> ''-Infinity''
      | NaN \<Rightarrow> ''NaN'')"

fun stringify :: "json \<Rightarrow> string" where
  "stringify JNull = ''null''"
| "stringify (JBool b) = (if b then ''true'' else ''false'')"
| "stringify (JNum n) = (case n of Fin x \<Rightarrow> number_text n | _ \<Rightarrow> ''null'')"
| "stringify (JStr s) = [CHR 0x22] @ s @ [CHR 0x22]"
| "stringify (JArr xs) = ''['' @ join '','' (map stringify xs) @ '']''"
| "stringify (JObj kvs) =
     ''{'' @ join '','' (map (\<lambda>kv. [CHR 0x22] @ fst kv @ [CHR 0x22] @ '':'' @ stringify (snd kv)) kvs) @ ''}''"

definition parse_known :: "json list \<Rightarrow> string \<Rightarrow> json option" where
  "parse_known known text = find (\<lambda>v. stringify v = text) known"

definition host :: "json list \<Rightarrow> platform" where
  "host known =
     \<lparr> JSON_parse = parse_known known,
       JSON_stringify = stringify,
       ToString = (\<lambda>v. case v of JNum n \<Rightarrow> number_text n | JNull \<Rightarrow> ''null''
                          | JBool b \<Rightarrow> (if b then ''true'' else ''false'') | _ \<Rightarrow> ''[object Object]''),
       ToNumber = (\<lambda>v. case v of JNull \<Rightarrow> Fin 0 | JBool b \<Rightarrow> Fin (if b then 1 else 0) | _ \<Rightarrow> NaN),
       parseFloat = (\<lambda>v. NaN),
       multiply = (\<lambda>a b. case (a, b) of (Fin x, Fin y) \<Rightarrow> Fin (x * y) | _ \<Rightarrow> NaN) \<rparr>"

subsection \<open>Example data\<close>

definition indicator_a :: json where
  "indicator_a =
     JObj [(''indicator'', JStr ''8.8.8.8''), (''type'', JStr ''ip''), (''confidence'', JNum (Fin (3 / 4))),
           (''connections'', JNum (Fin 3)), (''source'', JStr ''dns'')]"

definition indicator_b :: json where
  "indicator_b = JObj [(''indicator'', JStr ''example.com''), (''confidence'', JNum (Fin (1 / 2)))]"

definition ok_payload :: json where
  "ok_payload =
     JObj [(''status'', JStr ''success''),
           (''analytics'', JObj [(''total_entities'', JNum (Fin 2)),
                                 (''avg_confidence'', JNum (Fin (5 / 8))),
                                 (''source_count'', JNum (Fin 1))]),
           (''results'', JArr [indicator_a, indicator_b])]"

definition error_payload :: json where
  "error_payload = JObj [(''status'', JStr ''error''), (''message'', JStr ''backend down'')]"

definition example_host :: platform where
  "example_host = host [ok_payload, error_payload]"

definition store_of :: "(string \<times> string) list \<Rightarrow> storage" where
  "store_of kvs = \<lparr> entries = map_of kvs, available = True, admits = (\<lambda>m. True) \<rparr>"

text \<open>
  An empty store that takes no write: a browser that gives the page no quota, as private
  browsing modes have done.
\<close>

definition no_quota_store :: storage where
  "no_quota_store = \<lparr> entries = Map.empty, available = True, admits = (\<lambda>m. False) \<rparr>"

section \<open>Dotted-quad syntax, as the specification words it\<close>

text \<open>
  Four decimal octets separated by dots; an octet is written with one to three
  decimal digits and is a number from 0 to 255.
\<close>

fun split_on :: "char \<Rightarrow> string \<Rightarrow> string list" where
  "split_on d [] = [[]]"
| "split_on d (c # cs) =
     (if c = d then [] # split_on d cs
      else (case split_on d cs of x # xs \<Rightarrow> (c # x) # xs | [] \<Rightarrow> [[c]]))"

definition digit_value :: "char \<Rightarrow> nat" where
  "digit_value c = of_char c - 48"

definition number_of :: "string \<Rightarrow> nat" where
  "number_of w = foldl (\<lambda>n c. 10 * n + digit_value c) 0 w"

definition spec_octet :: "string \<Rightarrow> bool" where
  "spec_octet w =
     (1 \<le> length w \<and> length w \<le> 3 \<and> list_all (in_range CHR ''0'' CHR ''9'') w \<and> number_of w \<le> 255)"

definition spec_dotted_quad :: "string \<Rightarrow> bool" where
  "spec_dotted_quad s =
     (case split_on CHR ''.'' s of
        [a, b, c, d] \<Rightarrow> spec_octet a \<and> spec_octet b \<and> spec_octet c \<and> spec_octet d
      | _ \<Rightarrow> False)"

text \<open>
  The strings of the octet alternatives of the pattern, by their length, and the
  positions an octet at the front of \<open>s\<close> leaves: the rest \<open>t\<close> and the octet's last
  code unit.
\<close>

fun octet_chars :: "string \<Rightarrow> bool" where
  "octet_chars [a] = in_range CHR ''0'' CHR ''9'' a"
| "octet_chars [a, b] = (in_range CHR ''0'' CHR ''9'' a \<and> in_range CHR ''0'' CHR ''9'' b)"
| "octet_chars [a, b, c] =
     (a = CHR ''2'' \<and> b = CHR ''5'' \<and> in_range CHR ''0'' CHR ''5'' c
      \<or> a = CHR ''2'' \<and> in_range CHR ''0'' CHR ''4'' b \<and> in_range CHR ''0'' CHR ''9'' c
      \<or> (a = CHR ''0'' \<or> a = CHR ''1'') \<and> in_range CHR ''0'' CHR ''9'' b \<and> in_range CHR ''0'' CHR ''9'' c)"
| "octet_chars w = False"

definition octet_at :: "string \<Rightarrow> char option \<Rightarrow> string \<Rightarrow> bool" where
  "octet_at s q t \<longleftrightarrow> (\<exists>w. s = w @ t \<and> octet_chars w \<and> q = Some (last w))"

section \<open>Results page: what is rendered\<close>

text \<open>
  C1. A payload is valid for \<open>validateResults\<close> only when its status is \<open>success\<close> and
  both \<open>analytics\<close> and \<open>results\<close> are present; \<open>initialize\<close> schedules the renderer
  only on a payload that \<open>validateResults\<close> accepts; and a stored payload whose status
  is not \<open>success\<close>, or that lacks \<open>analytics\<close> or \<open>results\<close>, ends in the error state.
\<close>

theorem C1_render_only_valid_payload:
  "(validateResults (Some r) = Inr () \<longrightarrow>
      get_prop r ''status'' = Some (JStr ''success'')
      \<and> get_prop r ''analytics'' \<noteq> None \<and> get_prop r ''results'' \<noteq> None)
   \<and> (initialize P st = Render r \<longrightarrow> validateResults (Some r) = Inr ())
   \<and> (getItem st results_RESULTS_KEY = Inr (Some text) \<and> JSON_parse P text = Some r
        \<and> (get_prop r ''status'' \<noteq> Some (JStr ''success'')
             \<or> get_prop r ''analytics'' = None \<or> get_prop r ''results'' = None)
        \<longrightarrow> (\<exists>message. initialize P st = ErrorState message))"
proof (intro conjI impI)
  assume v: "validateResults (Some r) = Inr ()"
  then show "get_prop r ''status'' = Some (JStr ''success'')"
    by (simp add: validateResults_def split: if_splits)
  from v have "truthy_val (get_prop r ''analytics'')" "truthy_val (get_prop r ''results'')"
    by (simp_all add: validateResults_def split: if_splits)
  then show "get_prop r ''analytics'' \<noteq> None" "get_prop r ''results'' \<noteq> None"
    by (cases "get_prop r ''analytics''"; cases "get_prop r ''results''"; simp)+
next
  assume "initialize P st = Render r"
  then show "validateResults (Some r) = Inr ()"
    by (auto simp: initialize_def Let_def split: sum.splits bool.splits if_splits)
next
  assume a: "getItem st results_RESULTS_KEY = Inr (Some text) \<and> JSON_parse P text = Some r
        \<and> (get_prop r ''status'' \<noteq> Some (JStr ''success'')
             \<or> get_prop r ''analytics'' = None \<or> get_prop r ''results'' = None)"
  then have bad: "validateResults (Some r) \<noteq> Inr ()"
    by (auto simp: validateResults_def)
  from a have load: "text \<noteq> [] \<Longrightarrow> loadResults P st = (if truthy r then r else JNull)"
    by (simp add: loadResults_def results_StorageManager_get_def)
  from a have has: "hasResults st = Inr (text \<noteq> [])"
    by (simp add: hasResults_def)
  show "\<exists>message. initialize P st = ErrorState message"
  proof (cases "text = []")
    case True
    with has show ?thesis by (simp add: initialize_def)
  next
    case False
    with has load bad show ?thesis
      by (cases "validateResults (Some r)") (auto simp: initialize_def Let_def)
  qed
qed

theorem C1_witness:
  "initialize example_host (store_of [(results_RESULTS_KEY, stringify ok_payload)]) = Render ok_payload
   \<and> validateResults (Some ok_payload) = Inr ()
   \<and> get_prop ok_payload ''status'' = Some (JStr ''success'')
   \<and> (\<exists>message. initialize example_host (store_of [(results_RESULTS_KEY, stringify error_payload)])
          = ErrorState message)"
proof -
  let ?good = "store_of [(results_RESULTS_KEY, stringify ok_payload)]"
  let ?bad = "store_of [(results_RESULTS_KEY, stringify error_payload)]"
  have rendered: "initialize example_host ?good = Render ok_payload"
    by code_simp
  have stored: "getItem ?bad results_RESULTS_KEY = Inr (Some (stringify error_payload))"
    by (simp add: getItem_def store_of_def)
  have parsed: "JSON_parse example_host (stringify error_payload) = Some error_payload"
    by code_simp
  have status: "get_prop error_payload ''status'' \<noteq> Some (JStr ''success'')"
    by (simp add: error_payload_def)
  from C1_render_only_valid_payload [of ok_payload example_host ?good] rendered
  have valid: "validateResults (Some ok_payload) = Inr ()"
    and ok: "get_prop ok_payload ''status'' = Some (JStr ''success'')"
    by blast+
  from C1_render_only_valid_payload [of error_payload example_host ?bad "stringify error_payload"]
    stored parsed status
  have "\<exists>message. initialize example_host ?bad = ErrorState message"
    by blast
  with rendered valid ok show ?thesis
    by blast
qed

text \<open>
  C9. \<open>StorageManager.get\<close> of the results page returns the default when the key is
  absent, when the stored text is not valid JSON and when the store cannot be read,
  and never an error; so a load of the page over a malformed stored payload ends in the
  full-page error state.
\<close>

theorem C9_get_never_throws:
  "(getItem st key = Inr None \<longrightarrow> results_StorageManager_get P st key d = d)
   \<and> (getItem st key = Inr (Some text) \<and> JSON_parse P text = None
        \<longrightarrow> results_StorageManager_get P st key d = d)
   \<and> (getItem st key = Inl e \<longrightarrow> results_StorageManager_get P st key d = d)
   \<and> (getItem st results_RESULTS_KEY = Inr (Some text) \<and> JSON_parse P text = None
        \<longrightarrow> initialize P st =
              ErrorState (JStr (if text = [] then ''No analysis data found. Please run a new search.''
                                else ''Failed to load results. Please try again.'')))"
  by (auto simp: results_StorageManager_get_def initialize_def hasResults_def loadResults_def)

theorem C9_witness:
  "results_StorageManager_get example_host (store_of []) ''godeyeResults'' JNull = JNull
   \<and> results_StorageManager_get example_host (store_of [(''godeyeResults'', ''{oops'')]) ''godeyeResults'' JNull = JNull
   \<and> initialize example_host (store_of [(results_RESULTS_KEY, ''{oops'')])
       = ErrorState (JStr ''Failed to load results. Please try again.'')"
proof -
  let ?st = "store_of [(results_RESULTS_KEY, ''{oops'')]"
  have absent: "getItem (store_of []) ''godeyeResults'' = Inr None"
    by (simp add: getItem_def store_of_def)
  have present: "getItem ?st results_RESULTS_KEY = Inr (Some ''{oops'')"
    by (simp add: getItem_def store_of_def)
  have key: "results_RESULTS_KEY = ''godeyeResults''"
    by (simp add: results_RESULTS_KEY_def)
  have malformed: "JSON_parse example_host ''{oops'' = None"
    by code_simp
  from C9_get_never_throws [of "store_of []" "''godeyeResults''" example_host JNull] absent
  have a: "results_StorageManager_get example_host (store_of []) ''godeyeResults'' JNull = JNull"
    by blast
  from C9_get_never_throws [of ?st results_RESULTS_KEY example_host JNull "''{oops''"] present malformed
  have b: "results_StorageManager_get example_host ?st results_RESULTS_KEY JNull = JNull"
    and c: "initialize example_host ?st = ErrorState (JStr ''Failed to load results. Please try again.'')"
    by simp_all
  from a b c show ?thesis
    by (simp add: key)
qed

section \<open>The storage contract between the two pages\<close>

text \<open>
  C8. Round trip: when \<open>JSON.parse\<close> undoes \<open>JSON.stringify\<close> on the payload \<open>r\<close> (and
  rejects the empty text, as the JSON grammar does), a payload that the search page's
  \<open>StorageManager.set\<close> has stored under its results key is what the results page's
  \<open>StorageManager.get\<close> reads under its own results key.
\<close>

theorem C8_store_then_load:
  assumes roundtrip: "JSON_parse P (JSON_stringify P r) = Some r"
    and empty_text: "JSON_parse P [] = None"
    and stored: "app_StorageManager_set P st app_RESULTS_KEY r = (True, st')"
  shows "results_StorageManager_get P st' results_RESULTS_KEY d = r"
proof -
  from roundtrip empty_text have nonempty: "JSON_stringify P r \<noteq> []"
    by auto
  from stored have st': "st' = st\<lparr>entries := (entries st)(app_RESULTS_KEY \<mapsto> JSON_stringify P r)\<rparr>"
    and av: "available st"
    by (auto simp: app_StorageManager_set_def setItem_def Let_def split: if_splits)
  have same_key: "results_RESULTS_KEY = app_RESULTS_KEY"
    by (simp add: results_RESULTS_KEY_def app_RESULTS_KEY_def)
  from st' av have "getItem st' results_RESULTS_KEY = Inr (Some (JSON_stringify P r))"
    by (simp add: getItem_def same_key)
  with nonempty roundtrip show ?thesis
    by (simp add: results_StorageManager_get_def)
qed

theorem C8_witness:
  "app_StorageManager_set example_host (store_of []) app_RESULTS_KEY ok_payload
     = (True, (store_of [])\<lparr>entries := (entries (store_of []))(app_RESULTS_KEY \<mapsto> stringify ok_payload)\<rparr>)
   \<and> results_StorageManager_get example_host
        ((store_of [])\<lparr>entries := (entries (store_of []))(app_RESULTS_KEY \<mapsto> stringify ok_payload)\<rparr>)
        results_RESULTS_KEY JNull = ok_payload"
proof -
  let ?st' = "(store_of [])\<lparr>entries := (entries (store_of []))(app_RESULTS_KEY \<mapsto> stringify ok_payload)\<rparr>"
  have roundtrip: "JSON_parse example_host (JSON_stringify example_host ok_payload) = Some ok_payload"
    by code_simp
  have empty_text: "JSON_parse example_host [] = None"
    by code_simp
  have stored: "app_StorageManager_set example_host (store_of []) app_RESULTS_KEY ok_payload = (True, ?st')"
    by (simp add: app_StorageManager_set_def setItem_def store_of_def example_host_def host_def)
  from C8_store_then_load [OF roundtrip empty_text stored] stored show ?thesis
    by simp
qed

section \<open>Risk level and confidence tier\<close>

text \<open>
  C2. For a numeric \<open>avg_confidence\<close> \<open>v\<close> the risk level is High when \<open>v >= 0.8\<close>,
  Medium when \<open>0.5 <= v < 0.8\<close> and Low otherwise, and \<open>getConfidenceClass\<close> sorts a
  number into high, medium and low by the same two thresholds.
\<close>

theorem C2_thresholds:
  "get_prop analytics ''avg_confidence'' = Some (JNum v) \<Longrightarrow>
     fst (riskLevel P analytics) =
       (if num_ge v (8 / 10) then ''High'' else if num_ge v (5 / 10) then ''Medium'' else ''Low'')
     \<and> getConfidenceClass P (Some (JNum v)) =
       (if num_ge v (8 / 10) then ''high'' else if num_ge v (5 / 10) then ''medium'' else ''low'')"
  apply (cases v)
  apply (auto simp: riskLevel_def getConfidenceClass_def js_or_def to_num_def Let_def)
  done

theorem C2_witness:
  "fst (riskLevel example_host (JObj [(''avg_confidence'', JNum (Fin (79 / 100)))])) = ''Medium''
   \<and> fst (riskLevel example_host (JObj [(''avg_confidence'', JNum (Fin (8 / 10)))])) = ''High''
   \<and> fst (riskLevel example_host (JObj [(''avg_confidence'', JNum (Fin (49 / 100)))])) = ''Low''
   \<and> getConfidenceClass example_host (Some (JNum (Fin (79 / 100)))) = ''medium''
   \<and> getConfidenceClass example_host (Some (JNum (Fin (8 / 10)))) = ''high''
   \<and> getConfidenceClass example_host (Some (JNum (Fin (49 / 100)))) = ''low''"
  using C2_thresholds [of "JObj [(''avg_confidence'', JNum (Fin (79 / 100)))]" "Fin (79 / 100)" example_host]
    C2_thresholds [of "JObj [(''avg_confidence'', JNum (Fin (8 / 10)))]" "Fin (8 / 10)" example_host]
    C2_thresholds [of "JObj [(''avg_confidence'', JNum (Fin (49 / 100)))]" "Fin (49 / 100)" example_host]
  by simp

section \<open>Validator\<close>

text \<open>
  C3. \<open>detectQueryType\<close> answers with the first of IP, email, domain and URL whose
  pattern matches, and with \<open>unknown\<close> when none does; the four sample queries are
  classified as \<open>ip\<close>, \<open>email\<close>, \<open>domain\<close> and \<open>unknown\<close>.
\<close>

theorem C3_detect_priority:
  "(test False PATTERN_IP q \<longrightarrow> detectQueryType q = ''ip'')
   \<and> (\<not> test False PATTERN_IP q \<and> test False PATTERN_EMAIL q \<longrightarrow> detectQueryType q = ''email'')
   \<and> (\<not> test False PATTERN_IP q \<and> \<not> test False PATTERN_EMAIL q \<and> test True PATTERN_DOMAIN q
        \<longrightarrow> detectQueryType q = ''domain'')
   \<and> (\<not> test False PATTERN_IP q \<and> \<not> test False PATTERN_EMAIL q \<and> \<not> test True PATTERN_DOMAIN q
        \<and> test False PATTERN_URL q \<longrightarrow> detectQueryType q = ''url'')
   \<and> (\<not> test False PATTERN_IP q \<and> \<not> test False PATTERN_EMAIL q \<and> \<not> test True PATTERN_DOMAIN q
        \<and> \<not> test False PATTERN_URL q \<longrightarrow> detectQueryType q = ''unknown'')
   \<and> detectQueryType ''8.8.8.8'' = ''ip''
   \<and> detectQueryType ''a@b.com'' = ''email''
   \<and> detectQueryType ''example.com'' = ''domain''
   \<and> detectQueryType ''not a query!!'' = ''unknown''"
proof -
  have order: "detectQueryType q =
      (if test False PATTERN_IP q then ''ip''
       else if test False PATTERN_EMAIL q then ''email''
       else if test True PATTERN_DOMAIN q then ''domain''
       else if test False PATTERN_URL q then ''url''
       else ''unknown'')"
    by (simp add: detectQueryType_def)
  have ip: "detectQueryType ''8.8.8.8'' = ''ip''"
    by code_simp
  have email: "detectQueryType ''a@b.com'' = ''email''"
    by code_simp
  have domain: "detectQueryType ''example.com'' = ''domain''"
    by code_simp
  have unknown: "detectQueryType ''not a query!!'' = ''unknown''"
    by code_simp
  from order show ?thesis
    unfolding ip email domain unknown by simp
qed

theorem C3_witness:
  "test False PATTERN_IP ''10.0.0.1'' \<and> detectQueryType ''10.0.0.1'' = ''ip''
   \<and> \<not> test False PATTERN_IP ''http://example.com'' \<and> \<not> test False PATTERN_EMAIL ''http://example.com''
   \<and> \<not> test True PATTERN_DOMAIN ''http://example.com'' \<and> test False PATTERN_URL ''http://example.com''
   \<and> detectQueryType ''http://example.com'' = ''url''"
proof -
  have a: "test False PATTERN_IP ''10.0.0.1''" by code_simp
  have b: "\<not> test False PATTERN_IP ''http://example.com''" by code_simp
  have c: "\<not> test False PATTERN_EMAIL ''http://example.com''" by code_simp
  have d: "\<not> test True PATTERN_DOMAIN ''http://example.com''" by code_simp
  have e: "test False PATTERN_URL ''http://example.com''" by code_simp
  from C3_detect_priority [of "''10.0.0.1''"] a
  have f: "detectQueryType ''10.0.0.1'' = ''ip''" by blast
  from C3_detect_priority [of "''http://example.com''"] b c d e
  have g: "detectQueryType ''http://example.com'' = ''url''" by blast
  from a b c d e f g show ?thesis by blast
qed

lemma trim_Nil: "trim [] = []"
  by (simp add: trim_def)

text \<open>
  C5. With type \<open>auto\<close>, \<open>validateQuery\<close> accepts a string exactly when its trimmed form
  is non-empty and has at most 500 code units, and returns the trimmed form; a string
  whose trimmed form is empty fails with one of the two empty-query messages, and one
  longer than 500 with the too-long message. No pattern is consulted.
\<close>

theorem C5_auto_accepts_by_length:
  "(validateQuery (Some (JStr s)) ''auto'' = Inr q
      \<longleftrightarrow> q = trim s \<and> 0 < length (trim s) \<and> length (trim s) \<le> 500)
   \<and> (length (trim s) = 0 \<longrightarrow>
        validateQuery (Some (JStr s)) ''auto''
          = Inl (if s = [] then ''Query must be a non-empty string'' else ''Query cannot be empty''))
   \<and> (length (trim s) > 500 \<longrightarrow>
        validateQuery (Some (JStr s)) ''auto'' = Inl ''Query is too long (max 500 characters)'')"
proof (cases "s = []")
  case True
  then show ?thesis by (simp add: validateQuery_def trim_Nil)
next
  case False
  then show ?thesis by (auto simp: validateQuery_def Let_def)
qed

theorem C5_witness:
  "validateQuery (Some (JStr ''  not a query!! '')) ''auto'' = Inr ''not a query!!''
   \<and> validateQuery (Some (JStr ''   '')) ''auto'' = Inl ''Query cannot be empty''"
proof -
  have t: "trim ''  not a query!! '' = ''not a query!!''" by code_simp
  have e: "trim ''   '' = []" by code_simp
  from C5_auto_accepts_by_length [of "''  not a query!! ''" "''not a query!!''"] t
  have a: "validateQuery (Some (JStr ''  not a query!! '')) ''auto'' = Inr ''not a query!!''"
    by simp
  from C5_auto_accepts_by_length [of "''   ''"] e
  have b: "validateQuery (Some (JStr ''   '')) ''auto'' = Inl ''Query cannot be empty''"
    by simp
  from a b show ?thesis by blast
qed

subsection \<open>The IP pattern and dotted-quad syntax\<close>

lemma char_eq_nat: "c = d \<longleftrightarrow> (of_char c :: nat) = of_char d"
  by (metis char_of_char)

lemma in_step [simp]:
  "(q, t) \<in> set (step ok (p, s)) \<longleftrightarrow> (\<exists>c. s = c # t \<and> q = Some c \<and> ok c)"
  by (cases s) (auto simp: step_def)

lemma in_run_Then:
  "x \<in> set (run ic (Then a b) st) \<longleftrightarrow> (\<exists>m \<in> set (run ic a st). x \<in> set (run ic b m))"
  by auto

lemma in_run_Lit:
  "(q, t) \<in> set (run False (Lit a) (p, s)) \<longleftrightarrow> s = a # t \<and> q = Some a"
  by (auto simp: in_class_def)

lemma in_run_OneOf:
  "(q, t) \<in> set (run False (OneOf cs) (p, s))
     \<longleftrightarrow> (\<exists>c. s = c # t \<and> q = Some c \<and> list_ex (\<lambda>i. in_item i c) cs)"
  by (auto simp: in_class_def)

lemma in_run_optional:
  "x \<in> set (run ic (optional r) st) \<longleftrightarrow> x = st \<or> x \<in> set (run ic r st)"
  by (auto simp: optional_def)

lemma octet_atI: "s = w @ t \<Longrightarrow> octet_chars w \<Longrightarrow> q = Some (last w) \<Longrightarrow> octet_at s q t"
  unfolding octet_at_def by blast

lemma octet_at_1: "in_range CHR ''0'' CHR ''9'' a \<Longrightarrow> octet_at (a # t) (Some a) t"
  by (rule octet_atI [of _ "[a]"]) simp_all

lemma octet_at_2:
  "in_range CHR ''0'' CHR ''9'' a \<Longrightarrow> in_range CHR ''0'' CHR ''9'' b \<Longrightarrow> octet_at (a # b # t) (Some b) t"
  by (rule octet_atI [of _ "[a, b]"]) simp_all

lemma octet_at_3:
  "octet_chars [a, b, c] \<Longrightarrow> octet_at (a # b # c # t) (Some c) t"
  by (rule octet_atI [of _ "[a, b, c]"]) simp_all

lemma octet_at_cases:
  assumes "octet_at s q t"
  shows "(\<exists>a. s = a # t \<and> q = Some a \<and> in_range CHR ''0'' CHR ''9'' a)
     \<or> (\<exists>a b. s = a # b # t \<and> q = Some b \<and> in_range CHR ''0'' CHR ''9'' a \<and> in_range CHR ''0'' CHR ''9'' b)
     \<or> (\<exists>a b c. s = a # b # c # t \<and> q = Some c \<and> octet_chars [a, b, c])"
proof -
  from assms obtain w where w: "s = w @ t" "octet_chars w" "q = Some (last w)"
    unfolding octet_at_def by blast
  from w(2) w(1) w(3) show ?thesis
  proof (induction w rule: octet_chars.induct)
    case (1 a)
    then have "s = a # t \<and> q = Some a \<and> in_range CHR ''0'' CHR ''9'' a" by simp
    then show ?case by (intro disjI1 exI)
  next
    case (2 a b)
    then have "s = a # b # t \<and> q = Some b \<and> in_range CHR ''0'' CHR ''9'' a \<and> in_range CHR ''0'' CHR ''9'' b"
      by simp
    then show ?case by (intro disjI2 disjI1 exI)
  next
    case (3 a b c)
    then have "s = a # b # c # t \<and> q = Some c \<and> octet_chars [a, b, c]"
      by simp
    then show ?case by (intro disjI2 exI)
  qed simp_all
qed


lemma in_run_octet_fwd:
  assumes "(q, t) \<in> set (run False ip_octet (p, s))"
  shows "octet_at s q t"
  using assms unfolding ip_octet_def digit_def
  apply (simp only: run.simps(5) set_append Un_iff in_run_Then in_run_Lit in_run_OneOf in_run_optional
      Bex_def split_paired_Ex)
  apply (elim disjE exE conjE)
  apply (auto simp: in_range_def intro!: octet_at_1 octet_at_2 octet_at_3)
  done

lemma in_run_octet_bwd:
  assumes "octet_at s q t"
  shows "(q, t) \<in> set (run False ip_octet (p, s))"
  using octet_at_cases [OF assms]
  apply (elim disjE exE conjE)
    apply (simp add: ip_octet_def digit_def optional_def in_class_def step_def)
    apply (auto simp: in_range_def)[1]
   apply (simp add: ip_octet_def digit_def optional_def in_class_def step_def)
   apply (auto simp: in_range_def)[1]
  apply (simp add: ip_octet_def digit_def optional_def in_class_def step_def)
  apply (auto simp: in_range_def)[1]
  done


lemma in_run_octet: "(q, t) \<in> set (run False ip_octet (p, s)) \<longleftrightarrow> octet_at s q t"
  using in_run_octet_fwd in_run_octet_bwd by blast

lemma octet_arith:
  fixes x y z :: nat
  shows "(x = 50 \<and> y = 53 \<and> 48 \<le> z \<and> z \<le> 53
      \<or> x = 50 \<and> 48 \<le> y \<and> y \<le> 52 \<and> 48 \<le> z \<and> z \<le> 57
      \<or> (x = 48 \<or> x = 49) \<and> 48 \<le> y \<and> y \<le> 57 \<and> 48 \<le> z \<and> z \<le> 57)
    \<longleftrightarrow> (48 \<le> x \<and> x \<le> 57 \<and> 48 \<le> y \<and> y \<le> 57 \<and> 48 \<le> z \<and> z \<le> 57
         \<and> 10 * (10 * (x - 48) + (y - 48)) + (z - 48) \<le> 255)"
proof -
  consider "x < 48" | "x = 48" | "x = 49" | "x = 50" "y \<le> 52" | "x = 50" "y = 53"
    | "x = 50" "54 \<le> y" | "50 < x"
    by linarith
  then show ?thesis
  proof cases
    case 1 then show ?thesis by simp
  next
    case 2 then show ?thesis by simp linarith
  next
    case 3 then show ?thesis by simp linarith
  next
    case 4 then show ?thesis by simp linarith
  next
    case 5 then show ?thesis by simp linarith
  next
    case 6 then show ?thesis by simp linarith
  next
    case 7 then show ?thesis by simp linarith
  qed
qed

lemma octet_chars_spec: "octet_chars w \<longleftrightarrow> spec_octet w"
proof (induction w rule: octet_chars.induct)
  case (1 a)
  show ?case
    by (simp add: spec_octet_def number_of_def digit_value_def in_range_def) arith
next
  case (2 a b)
  show ?case
    by (simp add: spec_octet_def number_of_def digit_value_def in_range_def) arith
next
  case (3 a b c)
  have eqs: "a = CHR ''0'' \<longleftrightarrow> (of_char a :: nat) = 48" "a = CHR ''1'' \<longleftrightarrow> (of_char a :: nat) = 49"
    "a = CHR ''2'' \<longleftrightarrow> (of_char a :: nat) = 50" "b = CHR ''5'' \<longleftrightarrow> (of_char b :: nat) = 53"
    by (simp_all add: char_eq_nat del: of_char_eq_iff)
  have "spec_octet [a, b, c] \<longleftrightarrow>
      48 \<le> (of_char a :: nat) \<and> (of_char a :: nat) \<le> 57
      \<and> 48 \<le> (of_char b :: nat) \<and> (of_char b :: nat) \<le> 57
      \<and> 48 \<le> (of_char c :: nat) \<and> (of_char c :: nat) \<le> 57
      \<and> 10 * (10 * (of_char a - 48) + (of_char b - 48)) + (of_char c - 48) \<le> (255 :: nat)"
    by (simp add: spec_octet_def number_of_def digit_value_def in_range_def)
  moreover have "octet_chars [a, b, c] \<longleftrightarrow>
      ((of_char a :: nat) = 50 \<and> (of_char b :: nat) = 53 \<and> 48 \<le> (of_char c :: nat) \<and> (of_char c :: nat) \<le> 53
      \<or> (of_char a :: nat) = 50 \<and> 48 \<le> (of_char b :: nat) \<and> (of_char b :: nat) \<le> 52
          \<and> 48 \<le> (of_char c :: nat) \<and> (of_char c :: nat) \<le> 57
      \<or> ((of_char a :: nat) = 48 \<or> (of_char a :: nat) = 49) \<and> 48 \<le> (of_char b :: nat) \<and> (of_char b :: nat) \<le> 57
          \<and> 48 \<le> (of_char c :: nat) \<and> (of_char c :: nat) \<le> 57)"
    unfolding octet_chars.simps eqs by (simp add: in_range_def)
  ultimately show ?case
    using octet_arith [of "of_char a" "of_char b" "of_char c"] by blast
qed (simp_all add: spec_octet_def)

lemma in_run_dot:
  "(q, t) \<in> set (run False dot (p, s)) \<longleftrightarrow> s = CHR ''.'' # t \<and> q = Some CHR ''.''"
  unfolding dot_def by (rule in_run_Lit)

lemma in_run_octet_dot:
  "(q, t) \<in> set (run False (Then ip_octet dot) (p, s))
     \<longleftrightarrow> (\<exists>w. s = w @ CHR ''.'' # t \<and> octet_chars w) \<and> q = Some CHR ''.''"
  (is "?L \<longleftrightarrow> ?R")
proof
  assume ?L
  then obtain m where m: "m \<in> set (run False ip_octet (p, s))" "(q, t) \<in> set (run False dot m)"
    unfolding in_run_Then by blast
  obtain q1 t1 where m_eq: "m = (q1, t1)" by (cases m)
  from m(2) have t1: "t1 = CHR ''.'' # t" and q: "q = Some CHR ''.''"
    unfolding m_eq in_run_dot by simp_all
  from m(1) have "octet_at s q1 t1"
    unfolding m_eq in_run_octet .
  then obtain w where "s = w @ t1" "octet_chars w"
    unfolding octet_at_def by blast
  with t1 q show ?R by blast
next
  assume ?R
  then obtain w where w: "s = w @ CHR ''.'' # t" "octet_chars w" and q: "q = Some CHR ''.''"
    by blast
  from w have "octet_at s (Some (last w)) (CHR ''.'' # t)"
    by (intro octet_atI [of _ w]) simp_all
  then have "(Some (last w), CHR ''.'' # t) \<in> set (run False ip_octet (p, s))"
    unfolding in_run_octet .
  moreover have "(q, t) \<in> set (run False dot (Some (last w), CHR ''.'' # t))"
    unfolding in_run_dot using q by simp
  ultimately show ?L
    unfolding in_run_Then by blast
qed

lemma in_iter_3:
  "x \<in> set (iter f 3 3 st)
     \<longleftrightarrow> (\<exists>m1 \<in> set (f st). \<exists>m2 \<in> set (f m1). x \<in> set (f m2))"
  by (simp add: numeral_3_eq_3)


lemma test_iff: "test ic r s \<longleftrightarrow> (\<exists>q. (q, []) \<in> set (run ic r (None, s)))"
  unfolding test_def list_ex_iff by force

lemma test_ip_octets:
  "test False PATTERN_IP s \<longleftrightarrow>
     (\<exists>a b c d. s = a @ CHR ''.'' # b @ CHR ''.'' # c @ CHR ''.'' # d
        \<and> octet_chars a \<and> octet_chars b \<and> octet_chars c \<and> octet_chars d)"
  (is "?L \<longleftrightarrow> ?R")
proof
  let ?f = "run False (Then ip_octet dot)"
  assume ?L
  then obtain q where "(q, []) \<in> set (run False PATTERN_IP (None, s))"
    unfolding test_iff by blast
  then obtain m3 where m3: "m3 \<in> set (iter ?f 3 3 (None, s))" "(q, []) \<in> set (run False ip_octet m3)"
    unfolding PATTERN_IP_def in_run_Then by auto
  from m3(1) obtain m1 m2 where ms: "m1 \<in> set (?f (None, s))" "m2 \<in> set (?f m1)" "m3 \<in> set (?f m2)"
    unfolding in_iter_3 by blast
  obtain q1 t1 where m1: "m1 = (q1, t1)" by (cases m1)
  obtain q2 t2 where m2: "m2 = (q2, t2)" by (cases m2)
  obtain q3 t3 where m3_eq: "m3 = (q3, t3)" by (cases m3)
  from ms(1) obtain a where a: "s = a @ CHR ''.'' # t1" "octet_chars a"
    unfolding m1 in_run_octet_dot by blast
  from ms(2) obtain b where b: "t1 = b @ CHR ''.'' # t2" "octet_chars b"
    unfolding m1 m2 in_run_octet_dot by blast
  from ms(3) obtain c where c: "t2 = c @ CHR ''.'' # t3" "octet_chars c"
    unfolding m2 m3_eq in_run_octet_dot by blast
  from m3(2) obtain d where d: "t3 = d @ []" "octet_chars d"
    unfolding m3_eq in_run_octet octet_at_def by blast
  from a b c d have "s = a @ CHR ''.'' # b @ CHR ''.'' # c @ CHR ''.'' # d
        \<and> octet_chars a \<and> octet_chars b \<and> octet_chars c \<and> octet_chars d"
    by simp
  then show ?R by blast
next
  let ?f = "run False (Then ip_octet dot)"
  let ?dot = "Some CHR ''.''"
  assume ?R
  then obtain a b c d where s: "s = a @ CHR ''.'' # b @ CHR ''.'' # c @ CHR ''.'' # d"
    and oct: "octet_chars a" "octet_chars b" "octet_chars c" "octet_chars d"
    by blast
  have 1: "(?dot, b @ CHR ''.'' # c @ CHR ''.'' # d) \<in> set (?f (None, s))"
    unfolding in_run_octet_dot using s oct(1) by blast
  have 2: "(?dot, c @ CHR ''.'' # d) \<in> set (?f (?dot, b @ CHR ''.'' # c @ CHR ''.'' # d))"
    unfolding in_run_octet_dot using oct(2) by blast
  have 3: "(?dot, d) \<in> set (?f (?dot, c @ CHR ''.'' # d))"
    unfolding in_run_octet_dot using oct(3) by blast
  from 1 2 3 have "(?dot, d) \<in> set (iter ?f 3 3 (None, s))"
    unfolding in_iter_3 by blast
  moreover from oct(4) have "(Some (last d), []) \<in> set (run False ip_octet (?dot, d))"
    unfolding in_run_octet by (intro octet_atI [of _ d]) simp_all
  ultimately have "(Some (last d), []) \<in> set (run False PATTERN_IP (None, s))"
    unfolding PATTERN_IP_def in_run_Then by auto
  then show ?L
    unfolding test_iff by blast
qed

lemma split_on_not_Nil: "split_on d s \<noteq> []"
  by (induction s) (auto split: list.splits)

lemma split_on_no_sep: "d \<notin> set a \<Longrightarrow> split_on d a = [a]"
  by (induction a) auto

lemma split_on_append: "d \<notin> set a \<Longrightarrow> split_on d (a @ d # rest) = a # split_on d rest"
  by (induction a) auto

lemma join_Cons_head: "join sep ((c # x) # xs) = c # join sep (x # xs)"
  by (cases xs) simp_all

lemma join_split_on: "join [d] (split_on d s) = s"
proof (induction s)
  case Nil
  show ?case by simp
next
  case (Cons c cs)
  obtain x xs where split: "split_on d cs = x # xs"
    using split_on_not_Nil [of d cs] by (cases "split_on d cs") auto
  show ?case
  proof (cases "c = d")
    case True
    with Cons split show ?thesis by simp
  next
    case False
    with Cons split show ?thesis by (simp add: join_Cons_head)
  qed
qed

lemma spec_octet_no_dot: "spec_octet w \<Longrightarrow> CHR ''.'' \<notin> set w"
  by (auto simp: spec_octet_def list_all_iff in_range_def)

lemma spec_dotted_quad_iff:
  "spec_dotted_quad s \<longleftrightarrow>
     (\<exists>a b c d. s = a @ CHR ''.'' # b @ CHR ''.'' # c @ CHR ''.'' # d
        \<and> spec_octet a \<and> spec_octet b \<and> spec_octet c \<and> spec_octet d)"
  (is "?L \<longleftrightarrow> ?R")
proof
  assume ?L
  then obtain a b c d where parts: "split_on CHR ''.'' s = [a, b, c, d]"
    and oct: "spec_octet a" "spec_octet b" "spec_octet c" "spec_octet d"
    unfolding spec_dotted_quad_def by (auto split: list.splits)
  from join_split_on [of "CHR ''.''" s] parts have "s = a @ CHR ''.'' # b @ CHR ''.'' # c @ CHR ''.'' # d"
    by simp
  with oct show ?R by blast
next
  assume ?R
  then obtain a b c d where s: "s = a @ CHR ''.'' # b @ CHR ''.'' # c @ CHR ''.'' # d"
    and oct: "spec_octet a" "spec_octet b" "spec_octet c" "spec_octet d"
    by blast
  from oct have "split_on CHR ''.'' s = [a, b, c, d]"
    unfolding s by (simp add: split_on_append split_on_no_sep spec_octet_no_dot)
  with oct show ?L
    unfolding spec_dotted_quad_def by simp
qed

lemma test_ip_dotted_quad: "test False PATTERN_IP s \<longleftrightarrow> spec_dotted_quad s"
  unfolding test_ip_octets spec_dotted_quad_iff octet_chars_spec ..

lemma spec_octet_length: "spec_octet w \<Longrightarrow> 1 \<le> length w \<and> length w \<le> 3"
  by (simp add: spec_octet_def)

lemma spec_dotted_quad_length:
  assumes "spec_dotted_quad s"
  shows "0 < length s \<and> length s \<le> 500"
proof -
  from assms obtain a b c d where s: "s = a @ CHR ''.'' # b @ CHR ''.'' # c @ CHR ''.'' # d"
    and oct: "spec_octet a" "spec_octet b" "spec_octet c" "spec_octet d"
    unfolding spec_dotted_quad_iff by blast
  from oct [THEN spec_octet_length] show ?thesis
    unfolding s by simp
qed

text \<open>
  C4. With type \<open>ip\<close>, \<open>validateQuery\<close> accepts a query exactly when its trimmed form
  is dotted-quad syntax: four octets separated by dots, each written with one to three
  decimal digits and at most 255.
\<close>

theorem C4_ip_accepts_dotted_quad:
  "(validateQuery (Some (JStr q)) ''ip'' = Inr (trim q) \<longleftrightarrow> spec_dotted_quad (trim q))
   \<and> (\<not> spec_dotted_quad (trim q) \<longrightarrow> (\<exists>error. validateQuery (Some (JStr q)) ''ip'' = Inl error))"
proof -
  have upper: "toUpperCase ''ip'' = ''IP''"
    by code_simp
  have pattern: "PATTERNS (toUpperCase ''ip'') = Some (False, PATTERN_IP)"
    unfolding upper by (simp add: PATTERNS_def)
  show ?thesis
  proof (cases "spec_dotted_quad (trim q)")
    case True
    from spec_dotted_quad_length [OF True] have len: "0 < length (trim q)" "length (trim q) \<le> 500"
      by simp_all
    then have "q \<noteq> []"
      by (auto simp: trim_def)
    with True len show ?thesis
      by (simp add: validateQuery_def pattern test_ip_dotted_quad)
  next
    case False
    then show ?thesis
      by (simp add: validateQuery_def pattern test_ip_dotted_quad Let_def)
  qed
qed

theorem C4_witness:
  "validateQuery (Some (JStr '' 192.168.0.1 '')) ''ip'' = Inr ''192.168.0.1''
   \<and> spec_dotted_quad ''192.168.0.1''
   \<and> \<not> spec_dotted_quad ''256.1.1.1''
   \<and> (\<exists>error. validateQuery (Some (JStr ''256.1.1.1'')) ''ip'' = Inl error)"
proof -
  have t1: "trim '' 192.168.0.1 '' = ''192.168.0.1''" by code_simp
  have t2: "trim ''256.1.1.1'' = ''256.1.1.1''" by code_simp
  have yes: "spec_dotted_quad ''192.168.0.1''" by code_simp
  have no: "\<not> spec_dotted_quad ''256.1.1.1''" by code_simp
  from C4_ip_accepts_dotted_quad [of "'' 192.168.0.1 ''"] yes
  have a: "validateQuery (Some (JStr '' 192.168.0.1 '')) ''ip'' = Inr ''192.168.0.1''"
    unfolding t1 by blast
  from C4_ip_accepts_dotted_quad [of "''256.1.1.1''"] no
  have b: "\<exists>error. validateQuery (Some (JStr ''256.1.1.1'')) ''ip'' = Inl error"
    unfolding t2 by blast
  from a b yes no show ?thesis by blast
qed

section \<open>A failed search and the stored keys\<close>

lemma set_entries:
  "entries (snd (app_StorageManager_set P st key v)) =
     (if accepts st key (JSON_stringify P v) then (entries st)(key \<mapsto> JSON_stringify P v) else entries st)"
  by (simp add: app_StorageManager_set_def setItem_def accepts_def Let_def)

lemma set_frame:
  "available (snd (app_StorageManager_set P st key v)) = available st"
  "admits (snd (app_StorageManager_set P st key v)) = admits st"
  by (simp_all add: app_StorageManager_set_def setItem_def Let_def)

lemma app_keys_distinct:
  "app_QUERY_KEY \<noteq> app_RESULTS_KEY" "app_TYPE_KEY \<noteq> app_RESULTS_KEY" "app_TIMESTAMP_KEY \<noteq> app_RESULTS_KEY"
  "app_QUERY_KEY \<noteq> app_TYPE_KEY" "app_QUERY_KEY \<noteq> app_TIMESTAMP_KEY" "app_TYPE_KEY \<noteq> app_TIMESTAMP_KEY"
  by (simp_all add: app_QUERY_KEY_def app_RESULTS_KEY_def app_TYPE_KEY_def app_TIMESTAMP_KEY_def)

text \<open>
  C10. \<open>handleSubmit\<close> writes \<open>lastQuery\<close>, \<open>lastQueryType\<close> and
  \<open>lastSearchTimestamp\<close> after validation and before it looks at the outcome of the
  request. For every search that passes validation and then fails (the request throws,
  the body is not an object, the status is not \<open>success\<close>, or the write of the results
  is refused), \<open>godeyeResults\<close> is left as it was, and each of the three keys holds the
  new value when the store accepted its write and its old value when the store refused
  it, since \<open>set\<close> swallows a refused write and its result is ignored. In particular,
  on a store that accepts every write all three keys hold the new values.
\<close>

theorem C10_failed_search_storage:
  fixes typeSelector :: "string option"
  defines "type \<equiv> (case typeSelector of Some t \<Rightarrow> t | None \<Rightarrow> ''auto'')"
  assumes valid: "validateQuery (Some (JStr (trim text))) type = Inr q"
    and failed: "handleSubmit P search now st (Some text) typeSelector = (st', SearchFailed message)"
  shows "let st1 = snd (app_StorageManager_set P st app_QUERY_KEY (JStr q));
             st2 = snd (app_StorageManager_set P st1 app_TYPE_KEY (JStr type))
         in entries st' app_RESULTS_KEY = entries st app_RESULTS_KEY
            \<and> entries st' app_QUERY_KEY =
                (if accepts st app_QUERY_KEY (JSON_stringify P (JStr q))
                 then Some (JSON_stringify P (JStr q)) else entries st app_QUERY_KEY)
            \<and> entries st' app_TYPE_KEY =
                (if accepts st1 app_TYPE_KEY (JSON_stringify P (JStr type))
                 then Some (JSON_stringify P (JStr type)) else entries st app_TYPE_KEY)
            \<and> entries st' app_TIMESTAMP_KEY =
                (if accepts st2 app_TIMESTAMP_KEY (JSON_stringify P (JStr now))
                 then Some (JSON_stringify P (JStr now)) else entries st app_TIMESTAMP_KEY)
            \<and> (available st \<and> (\<forall>m. admits st m) \<longrightarrow>
                  entries st' app_QUERY_KEY = Some (JSON_stringify P (JStr q))
                  \<and> entries st' app_TYPE_KEY = Some (JSON_stringify P (JStr type))
                  \<and> entries st' app_TIMESTAMP_KEY = Some (JSON_stringify P (JStr now)))"
proof -
  define st1 where "st1 = snd (app_StorageManager_set P st app_QUERY_KEY (JStr q))"
  define st2 where "st2 = snd (app_StorageManager_set P st1 app_TYPE_KEY (JStr type))"
  define st3 where "st3 = snd (app_StorageManager_set P st2 app_TIMESTAMP_KEY (JStr now))"
  have e1: "entries st1 = (if accepts st app_QUERY_KEY (JSON_stringify P (JStr q))
              then (entries st)(app_QUERY_KEY \<mapsto> JSON_stringify P (JStr q)) else entries st)"
    unfolding st1_def by (rule set_entries)
  have e2: "entries st2 = (if accepts st1 app_TYPE_KEY (JSON_stringify P (JStr type))
              then (entries st1)(app_TYPE_KEY \<mapsto> JSON_stringify P (JStr type)) else entries st1)"
    unfolding st2_def by (rule set_entries)
  have e3: "entries st3 = (if accepts st2 app_TIMESTAMP_KEY (JSON_stringify P (JStr now))
              then (entries st2)(app_TIMESTAMP_KEY \<mapsto> JSON_stringify P (JStr now)) else entries st2)"
    unfolding st3_def by (rule set_entries)
  have frame: "available st1 = available st" "admits st1 = admits st"
    "available st2 = available st" "admits st2 = admits st"
    unfolding st1_def st2_def by (simp_all add: set_frame)
  have unchanged: "app_StorageManager_set P s k v = (False, s') \<Longrightarrow> s' = s" for s k v s'
    by (auto simp: app_StorageManager_set_def Let_def split: sum.splits)
  from failed valid have final: "st' = st3"
    unfolding st3_def st2_def st1_def handleSubmit_def Let_def option.case type_def [symmetric] sum.case
    by (auto split: sum.splits if_splits prod.splits dest: unchanged)
  have r: "entries st' app_RESULTS_KEY = entries st app_RESULTS_KEY"
    unfolding final e3 e2 e1 by (simp add: app_keys_distinct app_keys_distinct [symmetric])
  have a: "entries st' app_QUERY_KEY =
      (if accepts st app_QUERY_KEY (JSON_stringify P (JStr q))
       then Some (JSON_stringify P (JStr q)) else entries st app_QUERY_KEY)"
    unfolding final e3 e2 e1 by (simp add: app_keys_distinct app_keys_distinct [symmetric])
  have b: "entries st' app_TYPE_KEY =
      (if accepts st1 app_TYPE_KEY (JSON_stringify P (JStr type))
       then Some (JSON_stringify P (JStr type)) else entries st app_TYPE_KEY)"
    unfolding final e3 e2 e1 by (simp add: app_keys_distinct app_keys_distinct [symmetric])
  have c: "entries st' app_TIMESTAMP_KEY =
      (if accepts st2 app_TIMESTAMP_KEY (JSON_stringify P (JStr now))
       then Some (JSON_stringify P (JStr now)) else entries st app_TIMESTAMP_KEY)"
    unfolding final e3 e2 e1 by (simp add: app_keys_distinct app_keys_distinct [symmetric])
  have all: "available st \<and> (\<forall>m. admits st m) \<longrightarrow>
      accepts st app_QUERY_KEY (JSON_stringify P (JStr q))
      \<and> accepts st1 app_TYPE_KEY (JSON_stringify P (JStr type))
      \<and> accepts st2 app_TIMESTAMP_KEY (JSON_stringify P (JStr now))"
    by (simp add: accepts_def frame)
  from r a b c all show ?thesis
    unfolding Let_def st1_def [symmetric] st2_def [symmetric] by simp
qed

theorem C10_witness:
  "entries (fst (handleSubmit example_host (\<lambda>q t. Inl ''Failed to fetch'') ''2026-01-01T00:00:00.000Z''
            (store_of [(app_RESULTS_KEY, stringify ok_payload)]) (Some '' example.com '') (Some ''domain'')))
      app_RESULTS_KEY = Some (stringify ok_payload)
   \<and> entries (fst (handleSubmit example_host (\<lambda>q t. Inl ''Failed to fetch'') ''2026-01-01T00:00:00.000Z''
            (store_of [(app_RESULTS_KEY, stringify ok_payload)]) (Some '' example.com '') (Some ''domain'')))
      app_QUERY_KEY = Some (stringify (JStr ''example.com''))
   \<and> entries (fst (handleSubmit example_host (\<lambda>q t. Inl ''Failed to fetch'') ''2026-01-01T00:00:00.000Z''
            (store_of [(app_RESULTS_KEY, stringify ok_payload)]) (Some '' example.com '') (Some ''domain'')))
      app_TYPE_KEY = Some (stringify (JStr ''domain''))
   \<and> entries (fst (handleSubmit example_host (\<lambda>q t. Inl ''Failed to fetch'') ''2026-01-01T00:00:00.000Z''
            (store_of [(app_RESULTS_KEY, stringify ok_payload)]) (Some '' example.com '') (Some ''domain'')))
      app_TIMESTAMP_KEY = Some (stringify (JStr ''2026-01-01T00:00:00.000Z''))"
proof -
  let ?st = "store_of [(app_RESULTS_KEY, stringify ok_payload)]"
  let ?run = "handleSubmit example_host (\<lambda>q t. Inl ''Failed to fetch'') ''2026-01-01T00:00:00.000Z''
      ?st (Some '' example.com '') (Some ''domain'')"
  have "validateQuery (Some (JStr (trim '' example.com ''))) ''domain'' = Inr ''example.com''"
    by code_simp
  then have valid: "validateQuery (Some (JStr (trim '' example.com '')))
      (case Some ''domain'' of Some t \<Rightarrow> t | None \<Rightarrow> ''auto'') = Inr ''example.com''"
    by simp
  have "snd ?run = SearchFailed ''Failed to fetch''"
    by code_simp
  then have failed: "?run = (fst ?run, SearchFailed ''Failed to fetch'')"
    by (simp add: prod_eq_iff)
  have old: "entries ?st app_RESULTS_KEY = Some (stringify ok_payload)"
    by (simp add: store_of_def)
  have open_store: "available ?st \<and> (\<forall>m. admits ?st m)"
    by (simp add: store_of_def)
  have host: "JSON_stringify example_host = stringify"
    by (simp add: example_host_def host_def)
  note facts = C10_failed_search_storage [OF valid failed, unfolded Let_def host option.case]
  from facts have kept: "entries (fst ?run) app_RESULTS_KEY = entries ?st app_RESULTS_KEY"
    by (rule conjunct1)
  from facts open_store
  have written: "entries (fst ?run) app_QUERY_KEY = Some (stringify (JStr ''example.com''))
      \<and> entries (fst ?run) app_TYPE_KEY = Some (stringify (JStr ''domain''))
      \<and> entries (fst ?run) app_TIMESTAMP_KEY = Some (stringify (JStr ''2026-01-01T00:00:00.000Z''))"
    by blast
  from kept old written show ?thesis
    by simp
qed

text \<open>
  The specification has the three keys overwritten after every failed search. On a
  store that takes no write, a search whose results cannot be stored fails and leaves
  \<open>lastQuery\<close> absent.
\<close>

theorem C10_counterexample:
  "validateQuery (Some (JStr (trim '' example.com ''))) ''auto'' = Inr ''example.com''
   \<and> snd (handleSubmit example_host (\<lambda>q t. Inr ok_payload) ''2026-01-01T00:00:00.000Z''
            no_quota_store (Some '' example.com '') None)
       = SearchFailed ''Failed to store results. Check browser storage.''
   \<and> entries (fst (handleSubmit example_host (\<lambda>q t. Inr ok_payload) ''2026-01-01T00:00:00.000Z''
            no_quota_store (Some '' example.com '') None)) app_QUERY_KEY = None
   \<and> entries (fst (handleSubmit example_host (\<lambda>q t. Inr ok_payload) ''2026-01-01T00:00:00.000Z''
            no_quota_store (Some '' example.com '') None)) app_QUERY_KEY
       \<noteq> Some (JSON_stringify example_host (JStr ''example.com''))"
proof -
  let ?run = "handleSubmit example_host (\<lambda>q t. Inr ok_payload) ''2026-01-01T00:00:00.000Z''
            no_quota_store (Some '' example.com '') None"
  have valid: "validateQuery (Some (JStr (trim '' example.com ''))) ''auto'' = Inr ''example.com''"
    by code_simp
  have out: "snd ?run = SearchFailed ''Failed to store results. Check browser storage.''"
    by code_simp
  have kept: "entries (fst ?run) app_QUERY_KEY = None"
    by code_simp
  from valid out kept show ?thesis
    by simp
qed

section \<open>CSV export\<close>

text \<open>
  C6. CSV export of an absent, \<open>null\<close> or empty indicator list shows the
  warning toast \<open>No data to export\<close> and does nothing else: no CSV text is built, not
  even the header row, and no download is offered.
\<close>

theorem C6_empty_export_only_notifies:
  "downloadCSV P now None = [Notify ''No data to export'' ''warning'']
   \<and> downloadCSV P now (Some JNull) = [Notify ''No data to export'' ''warning'']
   \<and> downloadCSV P now (Some (JArr [])) = [Notify ''No data to export'' ''warning'']"
  by (simp add: downloadCSV_def length_is_zero_def)

theorem C6_witness:
  "downloadCSV example_host 1700000000000 None = [Notify ''No data to export'' ''warning'']
   \<and> downloadCSV example_host 1700000000000 (Some (JArr [])) = [Notify ''No data to export'' ''warning'']"
  using C6_empty_export_only_notifies [of example_host 1700000000000] by simp

text \<open>
  The specification has the export of an empty list produce the header row. The
  header-only text is never part of what the export does on the empty list.
\<close>

theorem C6_counterexample:
  \<open>csv_text example_host [] = ''"Indicator","Type","Confidence","Connections","Source"''
   \<and> downloadCSV example_host 1700000000000 (Some (JArr [])) = [Notify ''No data to export'' ''warning'']
   \<and> Download ''godeye-indicators-1700000000000.csv'' (csv_text example_host [])
        \<notin> set (downloadCSV example_host 1700000000000 (Some (JArr [])))\<close>
proof -
  have header: \<open>csv_text example_host [] = ''"Indicator","Type","Confidence","Connections","Source"''\<close>
    by code_simp
  have effects: "downloadCSV example_host 1700000000000 (Some (JArr [])) = [Notify ''No data to export'' ''warning'']"
    by code_simp
  from header effects show ?thesis
    by simp
qed

lemma csv_headers_line:
  \<open>csv_line P csv_headers = ''"Indicator","Type","Confidence","Connections","Source"''\<close>
  by (simp add: csv_line_def csv_headers_def csv_cell_def to_string_def)

text \<open>
  C7. For every non-empty list of indicators (no element \<open>null\<close>), CSV export
  offers one file whose first line is the header with the cells Indicator, Type,
  Confidence, Connections, Source (the third header cell is \<open>Confidence\<close>, without a
  percent sign) and whose further lines are one per indicator, in list order, lines
  joined by a line feed. Every cell, header cells included, is wrapped in double quotes
  and cells are joined by commas. A row has five cells: indicator, type, confidence,
  connections, source. An absent indicator, type or source gives \<open>unknown\<close>, absent
  connections give 0, a truthy field is passed through, and the confidence cell is
  \<open>Math.round(confidence * 100)\<close> followed by a percent sign, with 0 for an absent
  confidence.
\<close>

theorem C7_csv_export:
  assumes nonempty: "rs \<noteq> []"
    and no_null: "\<not> list_ex (\<lambda>item. item = JNull) rs"
  shows \<open>downloadCSV P now (Some (JArr rs)) =
           [Download (''godeye-indicators-'' @ to_string P (JNum (Fin (of_int now))) @ ''.csv'')
                     (join [CHR 0x0A]
                        (''"Indicator","Type","Confidence","Connections","Source"''
                         # map (\<lambda>item. csv_line P (csv_row P item)) rs)),
            Notify ''Table exported to CSV'' ''success'']
         \<and> csv_line P row = join '','' (map (\<lambda>cell. [CHR 0x22] @ to_string P cell @ [CHR 0x22]) row)
         \<and> length (csv_row P item) = 5
         \<and> csv_row P item ! 0 =
             (case get_prop item ''indicator'' of None \<Rightarrow> JStr ''unknown''
              | Some v \<Rightarrow> if truthy v then v else JStr ''unknown'')
         \<and> csv_row P item ! 1 =
             (case get_prop item ''type'' of None \<Rightarrow> JStr ''unknown''
              | Some v \<Rightarrow> if truthy v then v else JStr ''unknown'')
         \<and> csv_row P item ! 2 =
             JStr (to_string P (JNum (math_round (multiply P
                     (case get_prop item ''confidence'' of None \<Rightarrow> Fin 0
                      | Some v \<Rightarrow> if truthy v then to_num P v else Fin 0)
                     (Fin 100))))
                   @ ''%'')
         \<and> csv_row P item ! 3 =
             (case get_prop item ''connections'' of None \<Rightarrow> JNum (Fin 0)
              | Some v \<Rightarrow> if truthy v then v else JNum (Fin 0))
         \<and> csv_row P item ! 4 =
             (case get_prop item ''source'' of None \<Rightarrow> JStr ''unknown''
              | Some v \<Rightarrow> if truthy v then v else JStr ''unknown'')\<close>
proof -
  from nonempty no_null
  have \<open>downloadCSV P now (Some (JArr rs)) =
           [Download (''godeye-indicators-'' @ to_string P (JNum (Fin (of_int now))) @ ''.csv'')
                     (join [CHR 0x0A]
                        (''"Indicator","Type","Confidence","Connections","Source"''
                         # map (\<lambda>item. csv_line P (csv_row P item)) rs)),
            Notify ''Table exported to CSV'' ''success'']\<close>
    unfolding csv_headers_line [of P, symmetric]
    by (simp add: downloadCSV_def length_is_zero_def csv_text_def CSV_FILENAME_PREFIX_def comp_def)
  moreover have "csv_line P row = join '','' (map (\<lambda>cell. [CHR 0x22] @ to_string P cell @ [CHR 0x22]) row)"
    by (simp add: csv_line_def csv_cell_def [abs_def])
  moreover have "length (csv_row P item) = 5"
    by (simp add: csv_row_def)
  moreover have "csv_row P item ! 0 =
             (case get_prop item ''indicator'' of None \<Rightarrow> JStr ''unknown''
              | Some v \<Rightarrow> if truthy v then v else JStr ''unknown'')"
    "csv_row P item ! 1 =
             (case get_prop item ''type'' of None \<Rightarrow> JStr ''unknown''
              | Some v \<Rightarrow> if truthy v then v else JStr ''unknown'')"
    "csv_row P item ! 3 =
             (case get_prop item ''connections'' of None \<Rightarrow> JNum (Fin 0)
              | Some v \<Rightarrow> if truthy v then v else JNum (Fin 0))"
    "csv_row P item ! 4 =
             (case get_prop item ''source'' of None \<Rightarrow> JStr ''unknown''
              | Some v \<Rightarrow> if truthy v then v else JStr ''unknown'')"
    by (simp_all add: csv_row_def js_or_def)
  moreover have "csv_row P item ! 2 =
             JStr (to_string P (JNum (math_round (multiply P
                     (case get_prop item ''confidence'' of None \<Rightarrow> Fin 0
                      | Some v \<Rightarrow> if truthy v then to_num P v else Fin 0)
                     (Fin 100))))
                   @ ''%'')"
    by (simp add: csv_row_def js_or_def to_num_def split: option.splits)
  ultimately show ?thesis
    by blast
qed

theorem C7_witness:
  \<open>downloadCSV example_host 1700000000000 (Some (JArr [indicator_a, indicator_b])) =
     [Download ''godeye-indicators-1700000000000.csv''
        ''"Indicator","Type","Confidence","Connections","Source"\<newline>"8.8.8.8","ip","75%","3","dns"\<newline>"example.com","unknown","50%","0","unknown"'',
      Notify ''Table exported to CSV'' ''success'']\<close>
proof -
  have nonempty: "[indicator_a, indicator_b] \<noteq> []"
    by simp
  have no_null: "\<not> list_ex (\<lambda>item. item = JNull) [indicator_a, indicator_b]"
    by (simp add: indicator_a_def indicator_b_def)
  have name: "''godeye-indicators-'' @ to_string example_host (JNum (Fin (of_int 1700000000000))) @ ''.csv''
      = ''godeye-indicators-1700000000000.csv''"
    by code_simp
  have rows: \<open>join [CHR 0x0A]
        (''"Indicator","Type","Confidence","Connections","Source"''
         # map (\<lambda>item. csv_line example_host (csv_row example_host item)) [indicator_a, indicator_b])
      = ''"Indicator","Type","Confidence","Connections","Source"\<newline>"8.8.8.8","ip","75%","3","dns"\<newline>"example.com","unknown","50%","0","unknown"''\<close>
    by code_simp
  from C7_csv_export [OF nonempty no_null, of example_host 1700000000000, THEN conjunct1]
  show ?thesis
    unfolding name rows .
qed

text \<open>
  The specification heads the third column \<open>Confidence%\<close>. The file the
  export offers for one indicator has \<open>Confidence\<close> there.
\<close>

theorem C7_counterexample:
  \<open>downloadCSV example_host 1700000000000 (Some (JArr [indicator_a])) =
     [Download ''godeye-indicators-1700000000000.csv''
        ''"Indicator","Type","Confidence","Connections","Source"\<newline>"8.8.8.8","ip","75%","3","dns"'',
      Notify ''Table exported to CSV'' ''success'']
   \<and> downloadCSV example_host 1700000000000 (Some (JArr [indicator_a])) \<noteq>
     [Download ''godeye-indicators-1700000000000.csv''
        ''"Indicator","Type","Confidence%","Connections","Source"\<newline>"8.8.8.8","ip","75%","3","dns"'',
      Notify ''Table exported to CSV'' ''success'']\<close>
proof -
  have effects: \<open>downloadCSV example_host 1700000000000 (Some (JArr [indicator_a])) =
     [Download ''godeye-indicators-1700000000000.csv''
        ''"Indicator","Type","Confidence","Connections","Source"\<newline>"8.8.8.8","ip","75%","3","dns"'',
      Notify ''Table exported to CSV'' ''success'']\<close>
    by code_simp
  show ?thesis
    unfolding effects by simp
qed

end
